theory Spec2Isabelle
  imports Main
begin

section \<open>Python values\<close>

text \<open>
  The pipeline works on dynamically typed Python values: what \<^verbatim>\<open>json.loads\<close> returns
  (\<^verbatim>\<open>None\<close>, \<^verbatim>\<open>bool\<close>, \<^verbatim>\<open>int\<close>, \<^verbatim>\<open>float\<close>, \<^verbatim>\<open>str\<close>, \<^verbatim>\<open>list\<close>, \<^verbatim>\<open>dict\<close>)
  and the library objects the transformer tests for with \<^verbatim>\<open>isinstance\<close>
  (\<^verbatim>\<open>datetime\<close>, \<^verbatim>\<open>date\<close>, \<^verbatim>\<open>time\<close>, \<^verbatim>\<open>uuid.UUID\<close>, \<^verbatim>\<open>Decimal\<close>, \<^verbatim>\<open>bytes\<close>,
  \<^verbatim>\<open>tuple\<close>).

  A float is kept as data only (no arithmetic is done on it anywhere in the modelled
  code): mantissa and binary exponent, or one of the three special values.
  A character is an Isabelle \<^typ>\<open>char\<close>; every character outside ASCII is treated by the
  modelled code in one and the same way. A \<^verbatim>\<open>dict\<close> is an association list in
  insertion order.
\<close>

datatype pyfloat = Finite int int | PosInf | NegInf | NaN

datatype pyval =
    PNone
  | PBool bool
  | PInt int
  | PFloat pyfloat
  | PStr string
  | PList "pyval list"
  | PDict "(string \<times> pyval) list"
  | PDatetime int
  | PDate int
  | PTime int
  | PUUID nat
  | PDecimal int int
  | PBytes string
  | PTuple "pyval list"

type_synonym pydict = "(string \<times> pyval) list"

text \<open>\<^verbatim>\<open>type(v).__name__\<close>\<close>

fun type_name :: "pyval \<Rightarrow> string" where
  "type_name PNone = ''NoneType''"
| "type_name (PBool _) = ''bool''"
| "type_name (PInt _) = ''int''"
| "type_name (PFloat _) = ''float''"
| "type_name (PStr _) = ''str''"
| "type_name (PList _) = ''list''"
| "type_name (PDict _) = ''dict''"
| "type_name (PDatetime _) = ''datetime''"
| "type_name (PDate _) = ''date''"
| "type_name (PTime _) = ''time''"
| "type_name (PUUID _) = ''UUID''"
| "type_name (PDecimal _ _) = ''Decimal''"
| "type_name (PBytes _) = ''bytes''"
| "type_name (PTuple _) = ''tuple''"

text \<open>Truth value of an object, as \<^verbatim>\<open>if x\<close> tests it.\<close>

fun truthy :: "pyval \<Rightarrow> bool" where
  "truthy PNone = False"
| "truthy (PBool b) = b"
| "truthy (PInt i) = (i \<noteq> 0)"
| "truthy (PFloat (Finite m e)) = (m \<noteq> 0)"
| "truthy (PFloat _) = True"
| "truthy (PStr s) = (s \<noteq> [])"
| "truthy (PList xs) = (xs \<noteq> [])"
| "truthy (PDict d) = (d \<noteq> [])"
| "truthy (PDecimal c e) = (c \<noteq> 0)"
| "truthy (PBytes b) = (b \<noteq> [])"
| "truthy (PTuple xs) = (xs \<noteq> [])"
| "truthy _ = True"

fun is_dict :: "pyval \<Rightarrow> bool" where
  "is_dict (PDict _) = True"
| "is_dict _ = False"

fun is_list :: "pyval \<Rightarrow> bool" where
  "is_list (PList _) = True"
| "is_list _ = False"

subsection \<open>Dictionaries\<close>

text \<open>
  \<^verbatim>\<open>d.get(k)\<close> with \<^verbatim>\<open>None\<close> for a missing key, \<^verbatim>\<open>k in d\<close>, \<^verbatim>\<open>d[k] = v\<close> (an
  existing key keeps its position, a new key goes last), \<^verbatim>\<open>d.update(items)\<close> and
  \<^verbatim>\<open>dict(items)\<close>.
\<close>

definition dict_get :: "pydict \<Rightarrow> string \<Rightarrow> pyval" where
  "dict_get d k = (case map_of d k of None \<Rightarrow> PNone | Some v \<Rightarrow> v)"

definition dict_has :: "(string \<times> 'v) list \<Rightarrow> string \<Rightarrow> bool" where
  "dict_has d k = (map_of d k \<noteq> None)"

fun dict_set :: "(string \<times> 'v) list \<Rightarrow> string \<Rightarrow> 'v \<Rightarrow> (string \<times> 'v) list" where
  "dict_set [] k v = [(k, v)]"
| "dict_set ((k', v') # d) k v =
     (if k' = k then (k, v) # d else (k', v') # dict_set d k v)"

fun dict_update :: "(string \<times> 'v) list \<Rightarrow> (string \<times> 'v) list \<Rightarrow> (string \<times> 'v) list" where
  "dict_update d [] = d"
| "dict_update d ((k, v) # items) = dict_update (dict_set d k v) items"

definition dict_of_items :: "(string \<times> 'v) list \<Rightarrow> (string \<times> 'v) list" where
  "dict_of_items items = dict_update [] items"

section \<open>Field names: \<^verbatim>\<open>sanitize_field_name\<close>\<close>

text \<open>Character classes of the two regular expressions, by code point.\<close>

definition is_upper :: "char \<Rightarrow> bool" where
  "is_upper c = (65 \<le> (of_char c :: nat) \<and> (of_char c :: nat) \<le> 90)"

definition is_lower :: "char \<Rightarrow> bool" where
  "is_lower c = (97 \<le> (of_char c :: nat) \<and> (of_char c :: nat) \<le> 122)"

definition is_digit :: "char \<Rightarrow> bool" where
  "is_digit c = (48 \<le> (of_char c :: nat) \<and> (of_char c :: nat) \<le> 57)"

text \<open>\<^verbatim>\<open>[a-zA-Z0-9_]\<close>\<close>

definition is_word_char :: "char \<Rightarrow> bool" where
  "is_word_char c = (is_lower c \<or> is_upper c \<or> is_digit c \<or> c = CHR ''_'')"

text \<open>\<^verbatim>\<open>[a-zA-Z_]\<close>\<close>

definition is_start_char :: "char \<Rightarrow> bool" where
  "is_start_char c = (is_lower c \<or> is_upper c \<or> c = CHR ''_'')"

text \<open>
  \<^verbatim>\<open>str.lower()\<close>, on the letters A to Z. The program lowers only strings made of
  ASCII characters: a name after the substitution below, and the scheme of a parsed URL.
\<close>

definition lower_char :: "char \<Rightarrow> char" where
  "lower_char c = (if is_upper c then char_of ((of_char c :: nat) + 32) else c)"

definition lower :: "string \<Rightarrow> string" where
  "lower s = map lower_char s"

text \<open>\<^verbatim>\<open>re.sub(r'[^a-zA-Z0-9_]', '_', name)\<close>\<close>

definition re_sub_invalid :: "string \<Rightarrow> string" where
  "re_sub_invalid s = map (\<lambda>c. if is_word_char c then c else CHR ''_'') s"

text \<open>\<^verbatim>\<open>re.match(r'^[a-zA-Z_]', s)\<close>\<close>

fun re_match_start :: "string \<Rightarrow> bool" where
  "re_match_start [] = False"
| "re_match_start (c # _) = is_start_char c"

definition sanitize_field_name :: "string \<Rightarrow> string" where
  "sanitize_field_name name =
     (let sanitized = re_sub_invalid name;
          sanitized = (if \<not> re_match_start sanitized then ''field_'' @ sanitized else sanitized);
          sanitized = (if length sanitized > 63 then take 63 sanitized else sanitized)
      in lower sanitized)"

text \<open>The pattern \<^verbatim>\<open>^[a-z_][a-z0-9_]*$\<close> on a whole string.\<close>

definition is_ident_char :: "char \<Rightarrow> bool" where
  "is_ident_char c = (is_lower c \<or> is_digit c \<or> c = CHR ''_'')"

fun matches_identifier :: "string \<Rightarrow> bool" where
  "matches_identifier [] = False"
| "matches_identifier (c # cs) = ((is_lower c \<or> c = CHR ''_'') \<and> list_all is_ident_char cs)"


section \<open>The Python library, as a parameter\<close>

text \<open>
  What the program calls from the standard library is not part of it. Each function of
  the program that calls the library takes this record; a theorem about such a function
  holds for every library.
  \<^item> \<open>json_loads\<close>: \<^verbatim>\<open>json.loads\<close>; \<open>Inl msg\<close> is a \<^verbatim>\<open>JSONDecodeError\<close> with that message;
  \<^item> \<open>json_dumps\<close>: \<^verbatim>\<open>json.dumps\<close>;
  \<^item> \<open>str_of\<close>: \<^verbatim>\<open>str(v)\<close>, also inside an f-string;
  \<^item> \<open>uuid_parses\<close>: whether \<^verbatim>\<open>uuid.UUID(s)\<close> returns (it raises \<^verbatim>\<open>ValueError\<close> otherwise);
  \<^item> \<open>fromisoformat_parses\<close>: the same for \<^verbatim>\<open>datetime.fromisoformat(s)\<close>;
  \<^item> \<open>isoformat\<close>: \<^verbatim>\<open>v.isoformat()\<close> of a datetime, date or time;
  \<^item> \<open>float_of\<close>: \<^verbatim>\<open>float(v)\<close> of a \<^verbatim>\<open>Decimal\<close>;
  \<^item> \<open>bytes_hex\<close>: \<^verbatim>\<open>b.hex()\<close>;
  \<^item> \<open>urlparse_scheme\<close>: \<^verbatim>\<open>urlparse(s).scheme\<close>.
\<close>

record pylib =
  json_loads :: "string \<Rightarrow> string + pyval"
  json_dumps :: "pyval \<Rightarrow> string"
  str_of :: "pyval \<Rightarrow> string"
  uuid_parses :: "string \<Rightarrow> bool"
  fromisoformat_parses :: "string \<Rightarrow> bool"
  isoformat :: "pyval \<Rightarrow> string"
  float_of :: "pyval \<Rightarrow> pyfloat"
  bytes_hex :: "string \<Rightarrow> string"
  urlparse_scheme :: "string \<Rightarrow> string"

text \<open>\<^verbatim>\<open>str.strip()\<close>: the characters for which \<^verbatim>\<open>str.isspace\<close> holds, by code point.\<close>

definition is_space :: "char \<Rightarrow> bool" where
  "is_space c =
     (let n = (of_char c :: nat)
      in (9 \<le> n \<and> n \<le> 13) \<or> (28 \<le> n \<and> n \<le> 32) \<or> n = 133 \<or> n = 160)"

definition strip :: "string \<Rightarrow> string" where
  "strip s = rev (dropWhile is_space (rev (dropWhile is_space s)))"

text \<open>\<^verbatim>\<open>s.startswith(p)\<close>\<close>

definition startswith :: "string \<Rightarrow> string \<Rightarrow> bool" where
  "startswith s p = (take (length p) s = p)"

section \<open>Errors\<close>

datatype error_code = INVALID_PARAMS | INTERNAL_ERROR

text \<open>\<^verbatim>\<open>McpError(ErrorData(code=..., message=...))\<close>\<close>

datatype mcp_error = McpError error_code string

text \<open>The built-in exceptions the modelled code can raise, with their message.\<close>

datatype py_exception = AttributeError string | ValueError string

fun exception_str :: "py_exception \<Rightarrow> string" where
  "exception_str (AttributeError m) = m"
| "exception_str (ValueError m) = m"

datatype raised = RaisedMcp mcp_error | RaisedPy py_exception

section \<open>Envelopes: \<^verbatim>\<open>jsonrpc_parser.py\<close>\<close>

text \<open>
  The dataclass \<^verbatim>\<open>JsonRpcResponse\<close>. A field that is \<^verbatim>\<open>None\<close> holds \<^const>\<open>PNone\<close>; the
  fields \<^verbatim>\<open>id\<close> and \<^verbatim>\<open>method\<close> are \<open>rpc_id\<close> and \<open>rpc_method\<close> here.
\<close>

record JsonRpcResponse =
  jsonrpc :: string
  rpc_id :: pyval
  result :: pyval
  error :: pyval
  rpc_method :: pyval
  params :: pyval


definition is_error :: "JsonRpcResponse \<Rightarrow> bool" where
  "is_error r = (error r \<noteq> PNone)"

definition is_notification :: "JsonRpcResponse \<Rightarrow> bool" where
  "is_notification r = (rpc_method r \<noteq> PNone \<and> rpc_id r = PNone)"

text \<open>
  \<^verbatim>\<open>parse_jsonrpc_response\<close> from the decoded value on (source lines 58 to 110): the
  checks in the source's order.
\<close>

definition parse_jsonrpc_data :: "pylib \<Rightarrow> pyval \<Rightarrow> mcp_error + JsonRpcResponse" where
  "parse_jsonrpc_data L data =
     (case data of
        PDict d \<Rightarrow>
          (let jsonrpc_version = dict_get d ''jsonrpc'' in
           if jsonrpc_version \<noteq> PStr ''2.0'' then
             Inl (McpError INVALID_PARAMS
               (''Unsupported JSON-RPC version: '' @ str_of L jsonrpc_version @
                ''. Only 2.0 is supported.''))
           else
             (let rid = dict_get d ''id'';
                  res = dict_get d ''result'';
                  err = dict_get d ''error'';
                  meth = dict_get d ''method'';
                  pars = dict_get d ''params'';
                  response = \<lparr>jsonrpc = ''2.0'', rpc_id = rid, result = res, error = err,
                              rpc_method = meth, params = pars\<rparr>
              in
              if dict_has d ''id'' then
                (if res \<noteq> PNone \<and> err \<noteq> PNone then
                   Inl (McpError INVALID_PARAMS
                     (''JSON-RPC response cannot have both '' @ [CHR 0x27] @ ''result'' @
                      [CHR 0x27] @ '' and '' @ [CHR 0x27] @ ''error'' @ [CHR 0x27] @ '' fields''))
                 else if res = PNone \<and> err = PNone then
                   Inl (McpError INVALID_PARAMS
                     (''JSON-RPC response must have either '' @ [CHR 0x27] @ ''result'' @
                      [CHR 0x27] @ '' or '' @ [CHR 0x27] @ ''error'' @ [CHR 0x27] @ '' field''))
                 else Inr response)
              else if dict_has d ''method'' then
                (if dict_has d ''result'' \<or> dict_has d ''error'' then
                   Inl (McpError INVALID_PARAMS
                     (''JSON-RPC notification cannot have '' @ [CHR 0x27] @ ''result'' @
                      [CHR 0x27] @ '' or '' @ [CHR 0x27] @ ''error'' @ [CHR 0x27] @ '' fields''))
                 else Inr response)
              else
                Inl (McpError INVALID_PARAMS
                  (''JSON-RPC response must have either '' @ [CHR 0x27] @ ''id'' @
                   [CHR 0x27] @ '' or '' @ [CHR 0x27] @ ''method'' @ [CHR 0x27] @ '' field''))))
      | _ \<Rightarrow> Inl (McpError INVALID_PARAMS ''JSON-RPC response must be an object''))"

definition parse_jsonrpc_response :: "pylib \<Rightarrow> string \<Rightarrow> mcp_error + JsonRpcResponse" where
  "parse_jsonrpc_response L jsonrpc_string =
     (case json_loads L (strip jsonrpc_string) of
        Inl msg \<Rightarrow> Inl (McpError INVALID_PARAMS (''Invalid JSON format: '' @ msg))
      | Inr data \<Rightarrow> parse_jsonrpc_data L data)"

text \<open>
  The loop of \<^verbatim>\<open>validate_jsonrpc_batch\<close>: each item is serialised and parsed again; the
  first failure ends the loop with an error that carries the item's index.
\<close>

fun parse_batch_items :: "pylib \<Rightarrow> nat \<Rightarrow> pyval list \<Rightarrow> mcp_error + JsonRpcResponse list" where
  "parse_batch_items L i [] = Inr []"
| "parse_batch_items L i (item # rest) =
     (case parse_jsonrpc_response L (json_dumps L item) of
        Inl (McpError c m) \<Rightarrow>
          Inl (McpError INVALID_PARAMS
            (''Invalid item at index '' @ str_of L (PInt (int i)) @ '' in batch: '' @ m))
      | Inr response \<Rightarrow>
          (case parse_batch_items L (Suc i) rest of
             Inl e \<Rightarrow> Inl e
           | Inr responses \<Rightarrow> Inr (response # responses)))"

definition validate_jsonrpc_batch :: "pylib \<Rightarrow> string \<Rightarrow> mcp_error + JsonRpcResponse list" where
  "validate_jsonrpc_batch L jsonrpc_string =
     (case json_loads L (strip jsonrpc_string) of
        Inl msg \<Rightarrow> Inl (McpError INVALID_PARAMS (''Invalid JSON format: '' @ msg))
      | Inr data \<Rightarrow>
          (case data of
             PList items \<Rightarrow>
               if length items = 0 then
                 Inl (McpError INVALID_PARAMS ''JSON-RPC batch cannot be empty'')
               else parse_batch_items L 0 items
           | _ \<Rightarrow>
               (case parse_jsonrpc_response L jsonrpc_string of
                  Inl e \<Rightarrow> Inl e
                | Inr response \<Rightarrow> Inr [response])))"

subsection \<open>\<^verbatim>\<open>extract_data_from_jsonrpc\<close>\<close>

text \<open>
  \<^verbatim>\<open>response.error.get(k) if response.error else None\<close>: a false error member gives
  \<^verbatim>\<open>None\<close>; a true one that is no \<^verbatim>\<open>dict\<close> has no method \<^verbatim>\<open>get\<close>.
\<close>

definition error_get :: "pyval \<Rightarrow> string \<Rightarrow> py_exception + pyval" where
  "error_get err k =
     (if truthy err then
        (case err of
           PDict d \<Rightarrow> Inr (dict_get d k)
         | _ \<Rightarrow> Inl (AttributeError
                  ([CHR 0x27] @ type_name err @ [CHR 0x27] @ '' object has no attribute '' @
                   [CHR 0x27] @ ''get'' @ [CHR 0x27])))
      else Inr PNone)"

text \<open>
  The loop over a sequence result: its body, for the item at index \<open>i\<close> as \<^verbatim>\<open>enumerate\<close>
  counts it, and the records it appends.
\<close>

fun item_record :: "JsonRpcResponse \<Rightarrow> nat \<Rightarrow> pyval \<Rightarrow> pydict" where
  "item_record response i (PDict d) =
     dict_update d
       [(''jsonrpc_id'', rpc_id response),
        (''jsonrpc_version'', PStr (jsonrpc response)),
        (''result_index'', PInt (int i)),
        (''is_success'', PBool True)]"
| "item_record response i item =
     [(''jsonrpc_id'', rpc_id response),
      (''jsonrpc_version'', PStr (jsonrpc response)),
      (''result_value'', item),
      (''result_index'', PInt (int i)),
      (''result_type'', PStr (type_name item)),
      (''is_success'', PBool True)]"

fun extract_items :: "JsonRpcResponse \<Rightarrow> nat \<Rightarrow> pyval list \<Rightarrow> pydict list" where
  "extract_items response i [] = []"
| "extract_items response i (item # rest) =
     item_record response i item # extract_items response (Suc i) rest"

definition extract_data_from_jsonrpc :: "JsonRpcResponse \<Rightarrow> py_exception + pydict list" where
  "extract_data_from_jsonrpc response =
     (if is_error response then
        (case error_get (error response) ''code'' of
           Inl x \<Rightarrow> Inl x
         | Inr code \<Rightarrow>
        (case error_get (error response) ''message'' of
           Inl x \<Rightarrow> Inl x
         | Inr message \<Rightarrow>
        (case error_get (error response) ''data'' of
           Inl x \<Rightarrow> Inl x
         | Inr edata \<Rightarrow>
             Inr [[(''jsonrpc_id'', rpc_id response),
                   (''jsonrpc_version'', PStr (jsonrpc response)),
                   (''error_code'', code),
                   (''error_message'', message),
                   (''error_data'', edata),
                   (''is_error'', PBool True)]])))
      else if is_notification response then
        Inr [[(''jsonrpc_version'', PStr (jsonrpc response)),
              (''method'', rpc_method response),
              (''params'', params response),
              (''is_notification'', PBool True)]]
      else
        (case result response of
           PNone \<Rightarrow>
             Inr [[(''jsonrpc_id'', rpc_id response),
                   (''jsonrpc_version'', PStr (jsonrpc response)),
                   (''result'', PNone),
                   (''is_success'', PBool True)]]
         | PDict d \<Rightarrow>
             Inr [dict_update d
                    [(''jsonrpc_id'', rpc_id response),
                     (''jsonrpc_version'', PStr (jsonrpc response)),
                     (''is_success'', PBool True)]]
         | PList items \<Rightarrow> Inr (extract_items response 0 items)
         | v \<Rightarrow>
             Inr [[(''jsonrpc_id'', rpc_id response),
                   (''jsonrpc_version'', PStr (jsonrpc response)),
                   (''result_value'', v),
                   (''result_type'', PStr (type_name v)),
                   (''is_success'', PBool True)]]))"

subsection \<open>\<^verbatim>\<open>flatten_nested_dict\<close> and \<^verbatim>\<open>prepare_records_for_db\<close>\<close>

text \<open>
  The list \<^verbatim>\<open>items\<close> that the loop of \<^verbatim>\<open>flatten_nested_dict\<close> builds. For a value that
  is a \<^verbatim>\<open>dict\<close> the loop extends it with the items of the recursive call's result, itself
  a \<^verbatim>\<open>dict\<close> made from that call's list.
\<close>

function flatten_items :: "pylib \<Rightarrow> pydict \<Rightarrow> string \<Rightarrow> string \<Rightarrow> pydict" where
  "flatten_items L [] parent_key sep = []"
| "flatten_items L ((k, v) # rest) parent_key sep =
     (let new_key = (if parent_key \<noteq> [] then parent_key @ sep @ k else k);
          new_key = sanitize_field_name new_key
      in (case v of
            PDict d \<Rightarrow> dict_of_items (flatten_items L d new_key sep)
          | PList xs \<Rightarrow> [(new_key, PStr (json_dumps L v))]
          | _ \<Rightarrow> [(new_key, v)])
         @ flatten_items L rest parent_key sep)"
  by pat_completeness auto
termination
  by (relation "measure (\<lambda>(L, d, parent_key, sep). size (PDict d))") auto

definition flatten_nested_dict :: "pylib \<Rightarrow> pydict \<Rightarrow> string \<Rightarrow> string \<Rightarrow> pydict" where
  "flatten_nested_dict L data parent_key sep = dict_of_items (flatten_items L data parent_key sep)"

text \<open>\<^verbatim>\<open>flatten_nested_dict(record)\<close>, with the default arguments.\<close>

definition flatten :: "pylib \<Rightarrow> pydict \<Rightarrow> pydict" where
  "flatten L record = flatten_nested_dict L record [] ''_''"

text \<open>The loop of the branch that only sanitises the keys.\<close>

fun sanitize_items :: "pylib \<Rightarrow> pydict \<Rightarrow> pydict \<Rightarrow> pydict" where
  "sanitize_items L sanitized [] = sanitized"
| "sanitize_items L sanitized ((key, val) # rest) =
     (let clean_key = sanitize_field_name key
      in sanitize_items L
           (dict_set sanitized clean_key
              (if is_dict val \<or> is_list val then PStr (json_dumps L val) else val))
           rest)"

definition prepare_records_for_db :: "pylib \<Rightarrow> pydict list \<Rightarrow> bool \<Rightarrow> pydict list" where
  "prepare_records_for_db L records flat =
     map (\<lambda>record. if flat then flatten L record else sanitize_items L [] record) records"

section \<open>Types and values: \<^verbatim>\<open>data_transformer.py\<close>\<close>

datatype DatabaseType = POSTGRESQL | MONGODB | SQLITE | REDIS | MYSQL

text \<open>\<^verbatim>\<open>DataTransformer._get_type_mappings\<close>\<close>

fun type_mappings :: "DatabaseType \<Rightarrow> (string \<times> string) list" where
  "type_mappings POSTGRESQL =
     [(''str'', ''TEXT''), (''int'', ''INTEGER''), (''float'', ''REAL''),
      (''bool'', ''BOOLEAN''), (''datetime'', ''TIMESTAMP''), (''date'', ''DATE''),
      (''time'', ''TIME''), (''uuid'', ''UUID''), (''json'', ''JSONB''), (''list'', ''JSONB''),
      (''dict'', ''JSONB''), (''decimal'', ''NUMERIC''), (''bytes'', ''BYTEA'')]"
| "type_mappings MYSQL =
     [(''str'', ''TEXT''), (''int'', ''INT''), (''float'', ''DOUBLE''),
      (''bool'', ''BOOLEAN''), (''datetime'', ''DATETIME''), (''date'', ''DATE''),
      (''time'', ''TIME''), (''uuid'', ''CHAR(36)''), (''json'', ''JSON''), (''list'', ''JSON''),
      (''dict'', ''JSON''), (''decimal'', ''DECIMAL(10,2)''), (''bytes'', ''BLOB'')]"
| "type_mappings SQLITE =
     [(''str'', ''TEXT''), (''int'', ''INTEGER''), (''float'', ''REAL''),
      (''bool'', ''INTEGER''), (''datetime'', ''TEXT''), (''date'', ''TEXT''),
      (''time'', ''TEXT''), (''uuid'', ''TEXT''), (''json'', ''TEXT''), (''list'', ''TEXT''),
      (''dict'', ''TEXT''), (''decimal'', ''REAL''), (''bytes'', ''BLOB'')]"
| "type_mappings MONGODB =
     [(''str'', ''string''), (''int'', ''int''), (''float'', ''double''),
      (''bool'', ''bool''), (''datetime'', ''date''), (''date'', ''date''),
      (''time'', ''string''), (''uuid'', ''string''), (''json'', ''object''),
      (''list'', ''array''), (''dict'', ''object''), (''decimal'', ''decimal''),
      (''bytes'', ''binData'')]"
| "type_mappings REDIS =
     [(''str'', ''string''), (''int'', ''string''), (''float'', ''string''),
      (''bool'', ''string''), (''datetime'', ''string''), (''date'', ''string''),
      (''time'', ''string''), (''uuid'', ''string''), (''json'', ''string''),
      (''list'', ''string''), (''dict'', ''hash''), (''decimal'', ''string''),
      (''bytes'', ''string'')]"

text \<open>\<^verbatim>\<open>self.type_mappings.get(key, dflt)\<close>\<close>

definition mapping_get :: "DatabaseType \<Rightarrow> string \<Rightarrow> string \<Rightarrow> string" where
  "mapping_get db key dflt =
     (case map_of (type_mappings db) key of None \<Rightarrow> dflt | Some t \<Rightarrow> t)"

text \<open>\<^verbatim>\<open>value.replace('Z', '+00:00')\<close>\<close>

definition replace_Z :: "string \<Rightarrow> string" where
  "replace_Z s = concat (map (\<lambda>c. if c = CHR ''Z'' then ''+00:00'' else [c]) s)"

definition is_uuid_string :: "pylib \<Rightarrow> string \<Rightarrow> bool" where
  "is_uuid_string L s = uuid_parses L s"

definition is_datetime_string :: "pylib \<Rightarrow> string \<Rightarrow> bool" where
  "is_datetime_string L s = fromisoformat_parses L (replace_Z s)"

text \<open>
  \<^verbatim>\<open>DataTransformer.infer_field_type\<close>: the \<^verbatim>\<open>isinstance\<close> chain in the source's order,
  and the type's name as the key for everything else.
\<close>

fun infer_field_type :: "pylib \<Rightarrow> DatabaseType \<Rightarrow> pyval \<Rightarrow> string" where
  "infer_field_type L db PNone = mapping_get db ''str'' ''TEXT''"
| "infer_field_type L db (PStr s) =
     (if is_uuid_string L s then mapping_get db ''uuid'' ''TEXT''
      else if is_datetime_string L s then mapping_get db ''datetime'' ''TEXT''
      else mapping_get db ''str'' ''TEXT'')"
| "infer_field_type L db (PDict d) = mapping_get db ''json'' ''TEXT''"
| "infer_field_type L db (PList xs) = mapping_get db ''json'' ''TEXT''"
| "infer_field_type L db (PDatetime t) = mapping_get db ''datetime'' ''TEXT''"
| "infer_field_type L db (PDate t) = mapping_get db ''date'' ''TEXT''"
| "infer_field_type L db (PTime t) = mapping_get db ''time'' ''TEXT''"
| "infer_field_type L db (PDecimal c e) = mapping_get db ''decimal'' ''REAL''"
| "infer_field_type L db (PBytes b) = mapping_get db ''bytes'' ''TEXT''"
| "infer_field_type L db v = mapping_get db (type_name v) ''TEXT''"

subsection \<open>\<^verbatim>\<open>transform_value\<close>\<close>

fun transform_for_sqlite :: "pylib \<Rightarrow> pyval \<Rightarrow> string \<Rightarrow> pyval" where
  "transform_for_sqlite L (PBool b) target_type = PInt (if b then 1 else 0)"
| "transform_for_sqlite L (PDatetime t) target_type = PStr (isoformat L (PDatetime t))"
| "transform_for_sqlite L (PDate t) target_type = PStr (isoformat L (PDate t))"
| "transform_for_sqlite L (PTime t) target_type = PStr (isoformat L (PTime t))"
| "transform_for_sqlite L (PDict d) target_type = PStr (json_dumps L (PDict d))"
| "transform_for_sqlite L (PList xs) target_type = PStr (json_dumps L (PList xs))"
| "transform_for_sqlite L (PUUID u) target_type = PStr (str_of L (PUUID u))"
| "transform_for_sqlite L (PDecimal c e) target_type = PFloat (float_of L (PDecimal c e))"
| "transform_for_sqlite L v target_type = v"

fun transform_for_redis :: "pylib \<Rightarrow> pyval \<Rightarrow> string \<Rightarrow> pyval" where
  "transform_for_redis L (PDict d) target_type =
     (if target_type = ''hash'' then PDict (map (\<lambda>(k, v). (k, PStr (str_of L v))) d)
      else PStr (json_dumps L (PDict d)))"
| "transform_for_redis L (PList xs) target_type = PStr (json_dumps L (PList xs))"
| "transform_for_redis L (PTuple xs) target_type = PStr (json_dumps L (PTuple xs))"
| "transform_for_redis L (PDatetime t) target_type = PStr (isoformat L (PDatetime t))"
| "transform_for_redis L (PDate t) target_type = PStr (isoformat L (PDate t))"
| "transform_for_redis L (PTime t) target_type = PStr (isoformat L (PTime t))"
| "transform_for_redis L (PUUID u) target_type = PStr (str_of L (PUUID u))"
| "transform_for_redis L (PBool b) target_type = PStr (if b then ''true'' else ''false'')"
| "transform_for_redis L (PBytes b) target_type = PStr (bytes_hex L b)"
| "transform_for_redis L v target_type = PStr (str_of L v)"

fun transform_for_mongodb :: "pylib \<Rightarrow> pyval \<Rightarrow> string \<Rightarrow> pyval" where
  "transform_for_mongodb L (PUUID u) target_type = PStr (str_of L (PUUID u))"
| "transform_for_mongodb L (PTime t) target_type = PStr (isoformat L (PTime t))"
| "transform_for_mongodb L (PDecimal c e) target_type = PFloat (float_of L (PDecimal c e))"
| "transform_for_mongodb L v target_type = v"

fun transform_for_sql :: "pylib \<Rightarrow> DatabaseType \<Rightarrow> pyval \<Rightarrow> string \<Rightarrow> pyval" where
  "transform_for_sql L db (PDict d) target_type = PStr (json_dumps L (PDict d))"
| "transform_for_sql L db (PList xs) target_type = PStr (json_dumps L (PList xs))"
| "transform_for_sql L db (PUUID u) target_type = PStr (str_of L (PUUID u))"
| "transform_for_sql L db v target_type = v"

text \<open>\<^verbatim>\<open>target_type\<close> is optional: \<open>None\<close> when the caller gives none.\<close>

definition transform_value :: "pylib \<Rightarrow> DatabaseType \<Rightarrow> pyval \<Rightarrow> string option \<Rightarrow> pyval" where
  "transform_value L db v target_type =
     (if v = PNone then PNone
      else
        (let target_type = (case target_type of None \<Rightarrow> infer_field_type L db v | Some t \<Rightarrow> t)
         in if db = SQLITE then transform_for_sqlite L v target_type
            else if db = REDIS then transform_for_redis L v target_type
            else if db = MONGODB then transform_for_mongodb L v target_type
            else transform_for_sql L db v target_type))"

subsection \<open>\<^verbatim>\<open>infer_schema\<close>\<close>

text \<open>The body of the inner loop: the schema after one field of one record.\<close>

definition schema_field :: "pylib \<Rightarrow> DatabaseType \<Rightarrow> (string \<times> string) list \<Rightarrow> string \<times> pyval \<Rightarrow>
    (string \<times> string) list" where
  "schema_field L db schema item =
     (case item of (field_name, v) \<Rightarrow>
        (let field_type = infer_field_type L db v in
         case map_of schema field_name of
           Some existing_type \<Rightarrow>
             if existing_type \<noteq> field_type then
               (if existing_type = ''INTEGER'' \<and> field_type = ''REAL'' then
                  dict_set schema field_name field_type
                else if existing_type = ''REAL'' \<and> field_type = ''INTEGER'' then schema
                else dict_set schema field_name (mapping_get db ''str'' ''TEXT''))
             else schema
         | None \<Rightarrow> dict_set schema field_name field_type))"

definition infer_schema :: "pylib \<Rightarrow> DatabaseType \<Rightarrow> pydict list \<Rightarrow> (string \<times> string) list" where
  "infer_schema L db records =
     (if records = [] then []
      else foldl (\<lambda>schema record. foldl (schema_field L db) schema record) [] records)"

section \<open>Backends: \<^verbatim>\<open>database_manager.py\<close>\<close>

datatype connection_class =
  PostgreSQLConnection | SQLiteConnection | MongoDBConnection | RedisConnection | MySQLConnection

text \<open>
  A connection object as its constructor leaves it. The transformer of a connection is
  determined by its database type; \<open>connection\<close> is the attribute \<^verbatim>\<open>_connection\<close>, the
  live handle, \<open>None\<close> until \<^verbatim>\<open>connect\<close> has succeeded.
\<close>

record DatabaseConnection =
  conn_class :: connection_class
  connection_string :: string
  connection_timeout :: int
  database_type :: DatabaseType
  transformer :: DatabaseType
  connection :: "nat option"

text \<open>The scheme test, shared by the constructor and the factory.\<close>

definition scheme_database_type :: "string \<Rightarrow> DatabaseType option" where
  "scheme_database_type scheme =
     (if startswith scheme ''postgresql'' \<or> startswith scheme ''postgres'' then Some POSTGRESQL
      else if startswith scheme ''mysql'' then Some MYSQL
      else if startswith scheme ''sqlite'' then Some SQLITE
      else if startswith scheme ''mongodb'' then Some MONGODB
      else if startswith scheme ''redis'' then Some REDIS
      else None)"

text \<open>\<^verbatim>\<open>DatabaseConnection._determine_database_type\<close>\<close>

definition determine_database_type :: "pylib \<Rightarrow> string \<Rightarrow> py_exception + DatabaseType" where
  "determine_database_type L cs =
     (let scheme = lower (urlparse_scheme L cs) in
      case scheme_database_type scheme of
        Some t \<Rightarrow> Inr t
      | None \<Rightarrow> Inl (ValueError (''Unsupported database scheme: '' @ scheme)))"

text \<open>\<^verbatim>\<open>DatabaseConnection.__init__\<close>, which every connection class inherits.\<close>

definition new_connection ::
    "pylib \<Rightarrow> connection_class \<Rightarrow> string \<Rightarrow> int \<Rightarrow> py_exception + DatabaseConnection" where
  "new_connection L cls cs timeout =
     (case determine_database_type L cs of
        Inl x \<Rightarrow> Inl x
      | Inr t \<Rightarrow>
          Inr \<lparr>conn_class = cls, connection_string = cs, connection_timeout = timeout,
               database_type = t, transformer = t, connection = None\<rparr>)"

definition CONNECTION_CLASSES :: "(DatabaseType \<times> connection_class) list" where
  "CONNECTION_CLASSES =
     [(POSTGRESQL, PostgreSQLConnection), (SQLITE, SQLiteConnection),
      (MONGODB, MongoDBConnection), (REDIS, RedisConnection), (MYSQL, MySQLConnection)]"

text \<open>\<^verbatim>\<open>db_type.value\<close>\<close>

fun database_type_value :: "DatabaseType \<Rightarrow> string" where
  "database_type_value POSTGRESQL = ''postgresql''"
| "database_type_value MONGODB = ''mongodb''"
| "database_type_value SQLITE = ''sqlite''"
| "database_type_value REDIS = ''redis''"
| "database_type_value MYSQL = ''mysql''"

text \<open>\<^verbatim>\<open>DatabaseManager.create_connection\<close>\<close>

definition create_connection :: "pylib \<Rightarrow> string \<Rightarrow> int \<Rightarrow> raised + DatabaseConnection" where
  "create_connection L cs timeout =
     (let scheme = lower (urlparse_scheme L cs) in
      case scheme_database_type scheme of
        None \<Rightarrow>
          Inl (RaisedMcp (McpError INTERNAL_ERROR (''Unsupported database scheme: '' @ scheme)))
      | Some db_type \<Rightarrow>
          (case map_of CONNECTION_CLASSES db_type of
             None \<Rightarrow>
               Inl (RaisedMcp (McpError INTERNAL_ERROR
                 (''No connection handler for database type: '' @ database_type_value db_type)))
           | Some cls \<Rightarrow>
               (case new_connection L cls cs timeout of
                  Inl x \<Rightarrow> Inl (RaisedPy x)
                | Inr c \<Rightarrow> Inr c)))"

section \<open>The pipeline: \<^verbatim>\<open>server.py\<close>\<close>

text \<open>The request \<^verbatim>\<open>InsertJsonRpcToDb\<close>.\<close>

record InsertJsonRpcToDb =
  jsonrpc_response :: string
  arg_database_type :: string
  arg_connection_string :: string
  arg_table_name :: "string option"
  uuid_fields :: "string list option"
  create_if_missing :: bool
  batch_size :: int
  flatten_nested :: bool
  add_timestamps :: bool

text \<open>The dictionary \<^verbatim>\<open>result\<close>, without the elapsed time.\<close>

record ProcessResult =
  processed_responses :: nat
  inserted_records :: nat
  table_name :: string
  result_database_type :: string
  errors :: "string list"

text \<open>The loop of step 2: the first exception ends it.\<close>

fun extract_all :: "JsonRpcResponse list \<Rightarrow> py_exception + pydict list" where
  "extract_all [] = Inr []"
| "extract_all (response # rest) =
     (case extract_data_from_jsonrpc response of
        Inl x \<Rightarrow> Inl x
      | Inr records \<Rightarrow>
          (case extract_all rest of
             Inl x \<Rightarrow> Inl x
           | Inr all_records \<Rightarrow> Inr (records @ all_records)))"

text \<open>
  \<^verbatim>\<open>process_jsonrpc_to_db\<close> up to its first use of the backend. It ends in one of three
  ways: an \<^verbatim>\<open>McpError\<close> is raised; the function returns its result early; or a connection
  object exists and \<^verbatim>\<open>connect\<close> is awaited on it, with the records extracted so far.
  Everything after that point depends on the answers of the backend.
\<close>

datatype outcome =
    Raised mcp_error
  | Returned ProcessResult
  | AwaitConnect DatabaseConnection "pydict list" ProcessResult

definition unexpected :: "py_exception \<Rightarrow> mcp_error" where
  "unexpected e =
     McpError INTERNAL_ERROR
       (''Unexpected error in JSON-RPC to DB processing: '' @ exception_str e)"

definition process_jsonrpc_to_db :: "pylib \<Rightarrow> InsertJsonRpcToDb \<Rightarrow> int \<Rightarrow> outcome" where
  "process_jsonrpc_to_db L args timeout =
     (let res = \<lparr>processed_responses = 0, inserted_records = 0,
                  table_name = (case arg_table_name args of
                                  None \<Rightarrow> ''jsonrpc_data''
                                | Some n \<Rightarrow> if n = [] then ''jsonrpc_data'' else n),
                  result_database_type = arg_database_type args, errors = []\<rparr>
      in case validate_jsonrpc_batch L (jsonrpc_response args) of
           Inl e \<Rightarrow> Raised e
         | Inr responses \<Rightarrow>
             (let res = res\<lparr>processed_responses := length responses\<rparr> in
              case extract_all responses of
                Inl x \<Rightarrow> Raised (unexpected x)
              | Inr all_records \<Rightarrow>
                  if all_records = [] then
                    Returned (res\<lparr>errors := errors res @
                      [''No data records extracted from JSON-RPC responses'']\<rparr>)
                  else
                    (case create_connection L (arg_connection_string args) timeout of
                       Inl (RaisedMcp e) \<Rightarrow> Raised e
                     | Inl (RaisedPy x) \<Rightarrow> Raised (unexpected x)
                     | Inr db_connection \<Rightarrow> AwaitConnect db_connection all_records res)))"

section \<open>The type of one field\<close>

text \<open>
  What the conflict handling in the body of \<^verbatim>\<open>infer_schema\<close>'s loop (source lines 390 to 397) amounts to: the type
  a field has afterwards, when it had \<open>existing_type\<close> and the next value infers as
  \<open>field_type\<close>. The values of one field, in the order the two loops meet them.
\<close>

definition resolve_conflict :: "DatabaseType \<Rightarrow> string \<Rightarrow> string \<Rightarrow> string" where
  "resolve_conflict db existing_type field_type =
     (if existing_type \<noteq> field_type then
        (if existing_type = ''INTEGER'' \<and> field_type = ''REAL'' then field_type
         else if existing_type = ''REAL'' \<and> field_type = ''INTEGER'' then existing_type
         else mapping_get db ''str'' ''TEXT'')
      else existing_type)"

fun item_values :: "string \<Rightarrow> pydict \<Rightarrow> pyval list" where
  "item_values f [] = []"
| "item_values f ((k, v) # items) = (if k = f then v # item_values f items else item_values f items)"

definition field_values :: "string \<Rightarrow> pydict list \<Rightarrow> pyval list" where
  "field_values f records = item_values f (concat records)"

section \<open>Flat items\<close>

text \<open>
  An item as \<^verbatim>\<open>flatten_nested_dict\<close> leaves it: the key is a sanitised name, the value is
  neither a mapping nor a sequence.
\<close>

definition flat_item :: "string \<times> pyval \<Rightarrow> bool" where
  "flat_item item =
     (sanitize_field_name (fst item) = fst item \<and> \<not> is_dict (snd item) \<and> \<not> is_list (snd item))"

section \<open>A library for evaluation\<close>

text \<open>
  A small instance of the library, to evaluate the definitions on concrete inputs. It
  decodes three texts: the empty array, the response with an empty array as its result,
  and a response with an object as its result; the scheme of a connection string is the
  text before its first colon.
\<close>

definition dq :: "string \<Rightarrow> string" where
  "dq s = [CHR 0x22] @ s @ [CHR 0x22]"

definition empty_result_text :: string where
  "empty_result_text =
     ''{'' @ dq ''jsonrpc'' @ '':'' @ dq ''2.0'' @ '','' @ dq ''id'' @ '':1,'' @
     dq ''result'' @ '':[]}''"

definition object_result_text :: string where
  "object_result_text =
     ''{'' @ dq ''jsonrpc'' @ '':'' @ dq ''2.0'' @ '','' @ dq ''id'' @ '':1,'' @
     dq ''result'' @ '':{'' @ dq ''name'' @ '':'' @ dq ''Ann'' @ '','' @ dq ''age'' @ '':30}}''"

definition example_lib :: pylib where
  "example_lib =
     \<lparr>json_loads = (\<lambda>s.
        if s = ''[]'' then Inr (PList [])
        else if s = empty_result_text then
          Inr (PDict [(''jsonrpc'', PStr ''2.0''), (''id'', PInt 1), (''result'', PList [])])
        else if s = object_result_text then
          Inr (PDict [(''jsonrpc'', PStr ''2.0''), (''id'', PInt 1),
                      (''result'', PDict [(''name'', PStr ''Ann''), (''age'', PInt 30)])])
        else Inl ''Expecting value''),
      json_dumps = (\<lambda>v. ''<'' @ type_name v @ ''>''),
      str_of = (\<lambda>v. case v of PStr s \<Rightarrow> s | _ \<Rightarrow> ''<'' @ type_name v @ ''>''),
      uuid_parses = (\<lambda>s. False),
      fromisoformat_parses = (\<lambda>s. False),
      isoformat = (\<lambda>v. ''<'' @ type_name v @ ''>''),
      float_of = (\<lambda>v. case v of PDecimal c e \<Rightarrow> Finite c 0 | _ \<Rightarrow> NaN),
      bytes_hex = (\<lambda>b. b),
      urlparse_scheme = takeWhile (\<lambda>c. c \<noteq> CHR '':'')\<rparr>"

section \<open>Field names are sanitised once and for all\<close>

lemma lower_char_word: "is_word_char c \<Longrightarrow> is_ident_char (lower_char c)"
  by (auto simp: is_word_char_def is_ident_char_def lower_char_def is_upper_def is_lower_def
      is_digit_def)

lemma lower_char_start:
  "is_start_char c \<Longrightarrow> is_lower (lower_char c) \<or> lower_char c = CHR ''_''"
  by (auto simp: is_start_char_def lower_char_def is_upper_def is_lower_def)

lemma lower_char_ident: "is_ident_char c \<Longrightarrow> lower_char c = c"
  by (auto simp: is_ident_char_def lower_char_def is_upper_def is_lower_def is_digit_def)

lemma ident_word: "is_ident_char c \<Longrightarrow> is_word_char c"
  by (auto simp: is_ident_char_def is_word_char_def)

lemma re_sub_invalid_word: "list_all is_word_char (re_sub_invalid s)"
  by (induction s) (auto simp: re_sub_invalid_def is_word_char_def)

lemma field_word: "list_all is_word_char ''field_''"
  by (simp add: is_word_char_def is_lower_def)

lemma field_start: "re_match_start (''field_'' @ s)"
  by (simp add: is_start_char_def is_lower_def)

lemma re_match_start_take: "re_match_start s \<Longrightarrow> 0 < n \<Longrightarrow> re_match_start (take n s)"
  by (cases s; cases n) auto

lemma word_chars_take: "list_all is_word_char s \<Longrightarrow> list_all is_word_char (take n s)"
  by (auto simp: list_all_iff dest: in_set_takeD)

lemma matches_lower:
  "re_match_start s \<Longrightarrow> list_all is_word_char s \<Longrightarrow> matches_identifier (lower s)"
  by (cases s) (auto simp: lower_def list_all_iff dest: lower_char_start lower_char_word)

lemma sanitize_matches: "matches_identifier (sanitize_field_name x)"
proof -
  define s1 where "s1 = re_sub_invalid x"
  define s2 where "s2 = (if \<not> re_match_start s1 then ''field_'' @ s1 else s1)"
  define s3 where "s3 = (if length s2 > 63 then take 63 s2 else s2)"
  have w1: "list_all is_word_char s1" by (simp add: s1_def re_sub_invalid_word)
  have w2: "list_all is_word_char s2" using w1 field_word by (simp add: s2_def)
  have m2: "re_match_start s2" using field_start by (simp add: s2_def)
  have w3: "list_all is_word_char s3" using w2 by (simp add: s3_def word_chars_take)
  have m3: "re_match_start s3" using m2 by (simp add: s3_def re_match_start_take)
  have "sanitize_field_name x = lower s3"
    by (simp add: sanitize_field_name_def Let_def s1_def s2_def s3_def)
  then show ?thesis using matches_lower[OF m3 w3] by simp
qed

lemma sanitize_length: "length (sanitize_field_name x) \<le> 63"
  by (simp add: sanitize_field_name_def Let_def lower_def)

lemma matches_nonempty: "matches_identifier s \<Longrightarrow> s \<noteq> []"
  by (cases s) auto

text \<open>A name that already has the shape of an output is left as it is.\<close>

lemma sanitize_fixed:
  assumes "matches_identifier y" "length y \<le> 63"
  shows "sanitize_field_name y = y"
proof -
  from assms(1) obtain c cs where y: "y = c # cs" by (cases y) auto
  with assms(1) have all: "list_all is_ident_char y"
    by (auto simp: is_ident_char_def)
  then have sub: "re_sub_invalid y = y"
    using ident_word by (auto simp: re_sub_invalid_def list_all_iff intro!: map_idI)
  have st: "re_match_start y" using assms(1) y by (auto simp: is_start_char_def)
  have lo: "lower y = y"
    using all by (auto simp: lower_def list_all_iff intro!: map_idI dest: lower_char_ident)
  show ?thesis using sub st lo assms(2) by (simp add: sanitize_field_name_def Let_def)
qed

lemma sanitize_sanitize: "sanitize_field_name (sanitize_field_name x) = sanitize_field_name x"
  by (rule sanitize_fixed [OF sanitize_matches sanitize_length])

text \<open>
  Claim C6. For every string \<open>x\<close>, sanitising twice is sanitising once; and the sanitised
  name is not empty, matches \<^verbatim>\<open>^[a-z_][a-z0-9_]*$\<close> and has at most 63 characters.
\<close>

theorem sanitize_idempotent_identifier:
  "sanitize_field_name (sanitize_field_name x) = sanitize_field_name x \<and>
   sanitize_field_name x \<noteq> [] \<and>
   matches_identifier (sanitize_field_name x) \<and>
   length (sanitize_field_name x) \<le> 63"
  using sanitize_sanitize sanitize_matches sanitize_length matches_nonempty by blast

theorem sanitize_idempotent_identifier_witness:
  "sanitize_field_name ''9Hello World-x'' = ''field_9hello_world_x'' \<and>
   sanitize_field_name (sanitize_field_name ''9Hello World-x'') =
     sanitize_field_name ''9Hello World-x'' \<and>
   sanitize_field_name ''9Hello World-x'' \<noteq> [] \<and>
   matches_identifier (sanitize_field_name ''9Hello World-x'') \<and>
   length (sanitize_field_name ''9Hello World-x'') \<le> 63"
proof -
  have "sanitize_field_name ''9Hello World-x'' = ''field_9hello_world_x''"
    by code_simp
  then show ?thesis
    using sanitize_idempotent_identifier [of "''9Hello World-x''"] by simp
qed

section \<open>Decoding envelopes\<close>

lemma strip_brackets: "strip ''[]'' = ''[]''"
  by (simp add: strip_def is_space_def)

lemma parse_response_decoded:
  "json_loads L (strip s) = Inr data \<Longrightarrow>
   parse_jsonrpc_response L s = parse_jsonrpc_data L data"
  by (simp add: parse_jsonrpc_response_def)

text \<open>
  Claim C1 says that a response with an \<^verbatim>\<open>id\<close> member and the result \<^verbatim>\<open>null\<close> is decoded,
  and that extraction gives one record for it. The decoder refuses it: it tests the
  values of \<^verbatim>\<open>result\<close> and \<^verbatim>\<open>error\<close> against \<^verbatim>\<open>None\<close>, so a result that is \<^verbatim>\<open>null\<close> counts
  as no result at all. Every object with version 2.0, an \<^verbatim>\<open>id\<close> member, a null result and
  no error is rejected with the message for a response that has neither.
\<close>

theorem null_result_rejected:
  assumes "dict_get d ''jsonrpc'' = PStr ''2.0''" and "dict_has d ''id''"
    and "dict_get d ''result'' = PNone" and "dict_get d ''error'' = PNone"
  shows "parse_jsonrpc_data L (PDict d) =
           Inl (McpError INVALID_PARAMS
             (''JSON-RPC response must have either '' @ [CHR 0x27] @ ''result'' @
              [CHR 0x27] @ '' or '' @ [CHR 0x27] @ ''error'' @ [CHR 0x27] @ '' field''))"
  using assms by (simp add: parse_jsonrpc_data_def Let_def)

theorem null_result_rejected_witness:
  "parse_jsonrpc_data example_lib
     (PDict [(''jsonrpc'', PStr ''2.0''), (''id'', PInt 1), (''result'', PNone)]) =
   Inl (McpError INVALID_PARAMS
     (''JSON-RPC response must have either '' @ [CHR 0x27] @ ''result'' @
      [CHR 0x27] @ '' or '' @ [CHR 0x27] @ ''error'' @ [CHR 0x27] @ '' field''))"
  by (rule null_result_rejected) (simp_all add: dict_get_def dict_has_def)

text \<open>
  The extractor does have the branch for it: given the response object that the decoder
  never builds, it returns the record the claim describes.
\<close>

lemma extract_null_result:
  "extract_data_from_jsonrpc
     \<lparr>jsonrpc = ''2.0'', rpc_id = PInt 1, result = PNone, error = PNone, rpc_method = PNone,
      params = PNone\<rparr> =
   Inr [[(''jsonrpc_id'', PInt 1), (''jsonrpc_version'', PStr ''2.0''), (''result'', PNone),
         (''is_success'', PBool True)]]"
  by (simp add: extract_data_from_jsonrpc_def is_error_def is_notification_def)

text \<open>
  Claim C5. A text that decodes to the empty array, as \<^verbatim>\<open>[]\<close> does, is rejected with the
  error of an empty batch, whatever the library does on any other text or value: no item
  is decoded. The pipeline raises that error; it extracts nothing and creates no
  connection.
\<close>

theorem empty_batch_rejected:
  assumes "json_loads L (strip (jsonrpc_response args)) = Inr (PList [])"
  shows "validate_jsonrpc_batch L (jsonrpc_response args) =
           Inl (McpError INVALID_PARAMS ''JSON-RPC batch cannot be empty'') \<and>
         process_jsonrpc_to_db L args timeout =
           Raised (McpError INVALID_PARAMS ''JSON-RPC batch cannot be empty'')"
  using assms by (simp add: validate_jsonrpc_batch_def process_jsonrpc_to_db_def Let_def)

theorem empty_batch_rejected_witness:
  "validate_jsonrpc_batch example_lib ''[]'' =
     Inl (McpError INVALID_PARAMS ''JSON-RPC batch cannot be empty'') \<and>
   process_jsonrpc_to_db example_lib
     \<lparr>jsonrpc_response = ''[]'', arg_database_type = ''sqlite'',
      arg_connection_string = ''sqlite:///data.db'', arg_table_name = None,
      uuid_fields = None, create_if_missing = True, batch_size = 100,
      flatten_nested = True, add_timestamps = True\<rparr> 30 =
     Raised (McpError INVALID_PARAMS ''JSON-RPC batch cannot be empty'')"
  using empty_batch_rejected [of example_lib
     "\<lparr>jsonrpc_response = ''[]'', arg_database_type = ''sqlite'',
      arg_connection_string = ''sqlite:///data.db'', arg_table_name = None,
      uuid_fields = None, create_if_missing = True, batch_size = 100,
      flatten_nested = True, add_timestamps = True\<rparr>" 30]
  by (simp add: strip_brackets example_lib_def)

section \<open>Values for the backend\<close>

text \<open>
  Claim C10. For every backend and every target type, given or not, \<^verbatim>\<open>transform_value\<close>
  returns \<^verbatim>\<open>None\<close> for \<^verbatim>\<open>None\<close>: the test comes before any backend is looked at.
\<close>

theorem transform_value_null: "transform_value L db PNone target_type = PNone"
  by (simp add: transform_value_def)

theorem transform_value_null_witness:
  "transform_value example_lib REDIS PNone (Some ''hash'') = PNone \<and>
   transform_value example_lib SQLITE PNone None = PNone"
  using transform_value_null [of example_lib REDIS "Some ''hash''"]
        transform_value_null [of example_lib SQLITE None]
  by simp

section \<open>The schema of a batch\<close>

lemma map_of_dict_set: "map_of (dict_set d k v) = (map_of d)(k \<mapsto> v)"
  by (induction d) (auto simp: fun_eq_iff)

lemma schema_field_lookup:
  "map_of (schema_field L db s (k, v)) f =
     (if k = f then
        Some (case map_of s f of
                None \<Rightarrow> infer_field_type L db v
              | Some t \<Rightarrow> resolve_conflict db t (infer_field_type L db v))
      else map_of s f)"
  by (auto simp: schema_field_def Let_def resolve_conflict_def map_of_dict_set
      split: option.splits)

lemma schema_fields_lookup:
  "map_of (foldl (schema_field L db) s xs) f =
     (case item_values f xs of
        [] \<Rightarrow> map_of s f
      | v # vs \<Rightarrow>
          Some (foldl (resolve_conflict db)
                  (case map_of s f of
                     None \<Rightarrow> infer_field_type L db v
                   | Some t \<Rightarrow> resolve_conflict db t (infer_field_type L db v))
                  (map (infer_field_type L db) vs)))"
proof (induction xs arbitrary: s)
  case Nil
  then show ?case by simp
next
  case (Cons x xs)
  obtain k v where x: "x = (k, v)" by (cases x)
  define s' where "s' = schema_field L db s (k, v)"
  have IH: "map_of (foldl (schema_field L db) s' xs) f =
     (case item_values f xs of
        [] \<Rightarrow> map_of s' f
      | v # vs \<Rightarrow>
          Some (foldl (resolve_conflict db)
                  (case map_of s' f of
                     None \<Rightarrow> infer_field_type L db v
                   | Some t \<Rightarrow> resolve_conflict db t (infer_field_type L db v))
                  (map (infer_field_type L db) vs)))"
    by (rule Cons.IH)
  have step: "foldl (schema_field L db) s (x # xs) = foldl (schema_field L db) s' xs"
    by (simp add: x s'_def)
  have item: "map_of s' f =
     (if k = f then
        Some (case map_of s f of
                None \<Rightarrow> infer_field_type L db v
              | Some t \<Rightarrow> resolve_conflict db t (infer_field_type L db v))
      else map_of s f)"
    unfolding s'_def by (rule schema_field_lookup)
  show ?case
    unfolding step IH
    by (cases "item_values f xs") (simp_all add: x item)
qed

lemma foldl_records: "foldl (\<lambda>s r. foldl g s r) s rs = foldl g s (concat rs)"
  by (induction rs arbitrary: s) auto

text \<open>
  Claim C2 says that the type first given to a field is the inferred type of its first
  value that is not null. The loop has no test for null: a null value is a value like any
  other, inferred as the backend's string type, and the first record that has the field
  decides, null or not. On PostgreSQL the records \<^verbatim>\<open>{x: null}\<close>, \<^verbatim>\<open>{x: 1}\<close> give \<^verbatim>\<open>TEXT\<close>,
  already after the first of them, where \<^verbatim>\<open>{x: 1}\<close> alone gives \<^verbatim>\<open>INTEGER\<close>.
\<close>

theorem null_first_value_counterexample:
  "infer_schema example_lib POSTGRESQL [[(''x'', PNone)]] = [(''x'', ''TEXT'')] \<and>
   infer_schema example_lib POSTGRESQL [[(''x'', PNone)], [(''x'', PInt 1)]] =
     [(''x'', ''TEXT'')] \<and>
   infer_schema example_lib POSTGRESQL [[(''x'', PInt 1)]] = [(''x'', ''INTEGER'')] \<and>
   infer_field_type example_lib POSTGRESQL (PInt 1) = ''INTEGER''"
  by code_simp

text \<open>
  Claim C2, amended. The type of a field is the inferred type of the first value met for
  it, in record order and null or not, to which the conflict rule is applied with the
  inferred type of every later value in turn. A record that lacks the field has no part
  in it; a field that no record has is not in the schema.
\<close>

theorem schema_type_from_first_value:
  "map_of (infer_schema L db records) f =
     (case field_values f records of
        [] \<Rightarrow> None
      | v # vs \<Rightarrow>
          Some (foldl (resolve_conflict db) (infer_field_type L db v)
                  (map (infer_field_type L db) vs)))"
proof (cases "records = []")
  case True
  then show ?thesis by (simp add: infer_schema_def field_values_def)
next
  case False
  then show ?thesis
    by (cases "item_values f (concat records)")
       (simp_all add: infer_schema_def field_values_def foldl_records schema_fields_lookup)
qed

theorem schema_type_from_first_value_witness:
  "map_of (infer_schema example_lib POSTGRESQL
     [[(''y'', PInt 0)], [(''x'', PNone), (''y'', PInt 2)], [(''x'', PInt 1)]]) ''x'' =
   Some (resolve_conflict POSTGRESQL (infer_field_type example_lib POSTGRESQL PNone)
           (infer_field_type example_lib POSTGRESQL (PInt 1))) \<and>
   infer_schema example_lib POSTGRESQL
     [[(''y'', PInt 0)], [(''x'', PNone), (''y'', PInt 2)], [(''x'', PInt 1)]] =
   [(''y'', ''INTEGER''), (''x'', ''TEXT'')]"
proof -
  have "infer_schema example_lib POSTGRESQL
     [[(''y'', PInt 0)], [(''x'', PNone), (''y'', PInt 2)], [(''x'', PInt 1)]] =
   [(''y'', ''INTEGER''), (''x'', ''TEXT'')]"
    by code_simp
  then show ?thesis
  using schema_type_from_first_value [of example_lib POSTGRESQL
     "[[(''y'', PInt 0)], [(''x'', PNone), (''y'', PInt 2)], [(''x'', PInt 1)]]" "''x''"]
  by (simp add: field_values_def)
qed

text \<open>
  An int and a float for one field, in either order. The conflict rule compares with the
  names \<^verbatim>\<open>INTEGER\<close> and \<^verbatim>\<open>REAL\<close>, which are the types of an int and a float on PostgreSQL
  and SQLite only. On Redis both are \<^verbatim>\<open>string\<close> and nothing conflicts. On MySQL and
  MongoDB the two types differ and are not those names, so the field falls to the string
  type.
\<close>

lemma int_float_schema:
  "infer_schema L db [[(f, PInt i)], [(f, PFloat x)]] =
     [(f, if db = MYSQL \<or> db = MONGODB then mapping_get db ''str'' ''TEXT''
          else mapping_get db ''float'' ''TEXT'')]"
  by (cases db) (simp_all add: infer_schema_def schema_field_def mapping_get_def)

lemma float_int_schema:
  "infer_schema L db [[(f, PFloat x)], [(f, PInt i)]] =
     [(f, if db = MYSQL \<or> db = MONGODB then mapping_get db ''str'' ''TEXT''
          else mapping_get db ''float'' ''TEXT'')]"
  by (cases db) (simp_all add: infer_schema_def schema_field_def mapping_get_def)

text \<open>
  Claim C3 says that an int and a float for one field give the float type on every
  backend, in either order. On MySQL the records \<^verbatim>\<open>{n: 1}\<close>, \<^verbatim>\<open>{n: 1.5}\<close> give \<^verbatim>\<open>TEXT\<close> in
  both orders, where the float type is \<^verbatim>\<open>DOUBLE\<close>.
\<close>

theorem mysql_int_float_text:
  "infer_schema L MYSQL [[(''n'', PInt 1)], [(''n'', PFloat (Finite 3 (- 1)))]] =
     [(''n'', ''TEXT'')] \<and>
   infer_schema L MYSQL [[(''n'', PFloat (Finite 3 (- 1)))], [(''n'', PInt 1)]] =
     [(''n'', ''TEXT'')] \<and>
   mapping_get MYSQL ''float'' ''TEXT'' = ''DOUBLE''"
  by (simp add: infer_schema_def schema_field_def mapping_get_def)


section \<open>Records of an envelope\<close>

lemma parsed_not_both:
  "parse_jsonrpc_data L data = Inr r \<Longrightarrow> result r \<noteq> PNone \<Longrightarrow> error r = PNone"
  by (auto simp: parse_jsonrpc_data_def Let_def dict_has_def dict_get_def
      split: pyval.splits if_splits option.splits)












subsection \<open>When extraction returns no record\<close>

lemma parsed_is_dict: "parse_jsonrpc_data L data = Inr r \<Longrightarrow> \<exists>d. data = PDict d"
  by (cases data) (simp_all add: parse_jsonrpc_data_def)

lemma error_get_total:
  "\<not> truthy err \<or> is_dict err \<Longrightarrow> \<exists>v. error_get err k = Inr v"
  by (cases err) (auto simp: error_get_def)

lemma extract_items_empty: "extract_items r n items = [] \<longleftrightarrow> items = []"
  by (cases items) simp_all

lemma extract_returns:
  assumes "\<not> truthy (error r) \<or> is_dict (error r)"
  shows "\<exists>recs. extract_data_from_jsonrpc r = Inr recs \<and>
           (recs = [] \<longleftrightarrow> \<not> is_error r \<and> \<not> is_notification r \<and> result r = PList [])"
proof (cases "is_error r")
  case True
  obtain c where c: "error_get (error r) ''code'' = Inr c"
    using error_get_total [OF assms] by blast
  obtain m where m: "error_get (error r) ''message'' = Inr m"
    using error_get_total [OF assms] by blast
  obtain d where d: "error_get (error r) ''data'' = Inr d"
    using error_get_total [OF assms] by blast
  show ?thesis using True c m d by (simp add: extract_data_from_jsonrpc_def)
next
  case False
  show ?thesis
  proof (cases "is_notification r")
    case True
    then show ?thesis using False by (simp add: extract_data_from_jsonrpc_def)
  next
    case n: False
    show ?thesis
      using False n
      by (cases "result r") (simp_all add: extract_data_from_jsonrpc_def extract_items_empty)
  qed
qed

lemma validate_single:
  assumes "json_loads L (strip s) = Inr data" and "parse_jsonrpc_data L data = Inr r"
  shows "validate_jsonrpc_batch L s = Inr [r]"
proof -
  from assms(2) obtain d where "data = PDict d" using parsed_is_dict by blast
  then show ?thesis
    using assms by (simp add: validate_jsonrpc_batch_def parse_jsonrpc_response_def)
qed

lemma strip_empty_result_text: "strip empty_result_text = empty_result_text"
  by (simp add: strip_def is_space_def empty_result_text_def dq_def)

lemma loads_empty_result_text:
  "json_loads example_lib empty_result_text =
     Inr (PDict [(''jsonrpc'', PStr ''2.0''), (''id'', PInt 1), (''result'', PList [])])"
  by (simp add: example_lib_def empty_result_text_def dq_def)

lemma parse_empty_result:
  "parse_jsonrpc_data L
     (PDict [(''jsonrpc'', PStr ''2.0''), (''id'', PInt 1), (''result'', PList [])]) =
   Inr \<lparr>jsonrpc = ''2.0'', rpc_id = PInt 1, result = PList [], error = PNone,
        rpc_method = PNone, params = PNone\<rparr>"
  by (simp add: parse_jsonrpc_data_def dict_get_def dict_has_def)

text \<open>
  Claim C9 says that every envelope the decoder accepts gives at least one record, so that
  the pipeline's early return for no records is never taken. A response whose result is
  the empty array is accepted and gives no record, and the pipeline returns early on it.
\<close>

theorem empty_sequence_counterexample:
  "parse_jsonrpc_data example_lib
     (PDict [(''jsonrpc'', PStr ''2.0''), (''id'', PInt 1), (''result'', PList [])]) =
   Inr \<lparr>jsonrpc = ''2.0'', rpc_id = PInt 1, result = PList [], error = PNone,
        rpc_method = PNone, params = PNone\<rparr> \<and>
   extract_data_from_jsonrpc
     \<lparr>jsonrpc = ''2.0'', rpc_id = PInt 1, result = PList [], error = PNone,
      rpc_method = PNone, params = PNone\<rparr> = Inr [] \<and>
   process_jsonrpc_to_db example_lib
     \<lparr>jsonrpc_response = empty_result_text, arg_database_type = ''sqlite'',
      arg_connection_string = ''sqlite:///data.db'', arg_table_name = None,
      uuid_fields = None, create_if_missing = True, batch_size = 100,
      flatten_nested = True, add_timestamps = True\<rparr> 30 =
   Returned \<lparr>processed_responses = 1, inserted_records = 0, table_name = ''jsonrpc_data'',
             result_database_type = ''sqlite'',
             errors = [''No data records extracted from JSON-RPC responses'']\<rparr>"
proof -
  have e: "extract_data_from_jsonrpc
     \<lparr>jsonrpc = ''2.0'', rpc_id = PInt 1, result = PList [], error = PNone,
      rpc_method = PNone, params = PNone\<rparr> = Inr []"
    by (simp add: extract_data_from_jsonrpc_def is_error_def is_notification_def)
  have v: "validate_jsonrpc_batch example_lib empty_result_text =
     Inr [\<lparr>jsonrpc = ''2.0'', rpc_id = PInt 1, result = PList [], error = PNone,
      rpc_method = PNone, params = PNone\<rparr>]"
    by (rule validate_single [OF _ parse_empty_result])
       (simp add: strip_empty_result_text loads_empty_result_text)
  show ?thesis
    using e by (simp add: parse_empty_result process_jsonrpc_to_db_def v)
qed

text \<open>
  Claim C9, amended. For an envelope that the decoder accepts and whose error member, if
  it is true, is a mapping, extraction returns a list of records, and the list is empty
  exactly when the envelope is a success (no error, no notification) whose result is the
  empty sequence. For a request that is one such envelope the pipeline takes its early
  return: one response processed, no record inserted, the warning, and no connection.
\<close>

theorem extraction_empty_only_for_empty_sequence:
  assumes "parse_jsonrpc_data L data = Inr r"
    and "\<not> truthy (error r) \<or> is_dict (error r)"
  shows "(\<exists>recs. extract_data_from_jsonrpc r = Inr recs \<and>
            (recs = [] \<longleftrightarrow> \<not> is_error r \<and> \<not> is_notification r \<and> result r = PList [])) \<and>
         (json_loads L (strip (jsonrpc_response args)) = Inr data \<and>
          \<not> is_notification r \<and> result r = PList [] \<longrightarrow>
          process_jsonrpc_to_db L args timeout =
            Returned \<lparr>processed_responses = 1, inserted_records = 0,
                      table_name = (case arg_table_name args of
                                      None \<Rightarrow> ''jsonrpc_data''
                                    | Some n \<Rightarrow> if n = [] then ''jsonrpc_data'' else n),
                      result_database_type = arg_database_type args,
                      errors = [''No data records extracted from JSON-RPC responses'']\<rparr>)"
proof (intro conjI impI)
  show "\<exists>recs. extract_data_from_jsonrpc r = Inr recs \<and>
            (recs = [] \<longleftrightarrow> \<not> is_error r \<and> \<not> is_notification r \<and> result r = PList [])"
    using assms(2) by (rule extract_returns)
next
  assume h: "json_loads L (strip (jsonrpc_response args)) = Inr data \<and>
          \<not> is_notification r \<and> result r = PList []"
  then have v: "validate_jsonrpc_batch L (jsonrpc_response args) = Inr [r]"
    using assms(1) by (simp add: validate_single)
  have "error r = PNone" using parsed_not_both [OF assms(1)] h by simp
  then have "extract_data_from_jsonrpc r = Inr []"
    using h by (simp add: extract_data_from_jsonrpc_def is_error_def)
  then have e: "extract_all [r] = Inr []" by simp
  show "process_jsonrpc_to_db L args timeout =
            Returned \<lparr>processed_responses = 1, inserted_records = 0,
                      table_name = (case arg_table_name args of
                                      None \<Rightarrow> ''jsonrpc_data''
                                    | Some n \<Rightarrow> if n = [] then ''jsonrpc_data'' else n),
                      result_database_type = arg_database_type args,
                      errors = [''No data records extracted from JSON-RPC responses'']\<rparr>"
    unfolding process_jsonrpc_to_db_def Let_def v using e by simp
qed

theorem extraction_empty_only_for_empty_sequence_witness:
  "(\<exists>recs. extract_data_from_jsonrpc
      \<lparr>jsonrpc = ''2.0'', rpc_id = PInt 1, result = PList [], error = PNone,
       rpc_method = PNone, params = PNone\<rparr> = Inr recs \<and> recs = []) \<and>
   process_jsonrpc_to_db example_lib
     \<lparr>jsonrpc_response = empty_result_text, arg_database_type = ''redis'',
      arg_connection_string = ''redis://localhost'', arg_table_name = Some ''events'',
      uuid_fields = None, create_if_missing = True, batch_size = 100,
      flatten_nested = True, add_timestamps = True\<rparr> 30 =
   Returned \<lparr>processed_responses = 1, inserted_records = 0, table_name = ''events'',
             result_database_type = ''redis'',
             errors = [''No data records extracted from JSON-RPC responses'']\<rparr>"
proof -
  let ?r = "\<lparr>jsonrpc = ''2.0'', rpc_id = PInt 1, result = PList [], error = PNone,
       rpc_method = PNone, params = PNone\<rparr>"
  let ?args = "\<lparr>jsonrpc_response = empty_result_text, arg_database_type = ''redis'',
      arg_connection_string = ''redis://localhost'', arg_table_name = Some ''events'',
      uuid_fields = None, create_if_missing = True, batch_size = 100,
      flatten_nested = True, add_timestamps = True\<rparr>"
  have t: "\<not> truthy (error ?r) \<or> is_dict (error ?r)" by simp
  from extraction_empty_only_for_empty_sequence
         [OF parse_empty_result t, of example_lib ?args 30]
  show ?thesis
    by (simp add: strip_empty_result_text loads_empty_result_text is_notification_def
        is_error_def)
qed

section \<open>Selecting the backend\<close>

lemma startswith_Nil: "startswith s []"
  by (simp add: startswith_def)

lemma startswith_Cons: "startswith s (c # p) \<longleftrightarrow> (\<exists>s'. s = c # s' \<and> startswith s' p)"
  by (cases s) (auto simp: startswith_def)

lemma scheme_type_cases:
  "scheme_database_type scheme =
     (if startswith scheme ''postgres'' then Some POSTGRESQL
      else if startswith scheme ''mysql'' then Some MYSQL
      else if startswith scheme ''sqlite'' then Some SQLITE
      else if startswith scheme ''mongodb'' then Some MONGODB
      else if startswith scheme ''redis'' then Some REDIS
      else None)"
  by (auto simp: scheme_database_type_def startswith_Cons startswith_Nil)

lemma prefixes_exclusive:
  "startswith s ''mysql'' \<Longrightarrow> \<not> startswith s ''postgres''"
  "startswith s ''sqlite'' \<Longrightarrow> \<not> startswith s ''postgres'' \<and> \<not> startswith s ''mysql''"
  "startswith s ''mongodb'' \<Longrightarrow>
     \<not> startswith s ''postgres'' \<and> \<not> startswith s ''mysql'' \<and> \<not> startswith s ''sqlite''"
  "startswith s ''redis'' \<Longrightarrow>
     \<not> startswith s ''postgres'' \<and> \<not> startswith s ''mysql'' \<and> \<not> startswith s ''sqlite'' \<and>
     \<not> startswith s ''mongodb''"
  by (auto simp: startswith_Cons)

lemma create_connection_by_type:
  "create_connection L cs timeout =
     (case scheme_database_type (lower (urlparse_scheme L cs)) of
        None \<Rightarrow>
          Inl (RaisedMcp (McpError INTERNAL_ERROR
            (''Unsupported database scheme: '' @ lower (urlparse_scheme L cs))))
      | Some t \<Rightarrow>
          Inr \<lparr>conn_class = (case t of POSTGRESQL \<Rightarrow> PostgreSQLConnection
                             | MONGODB \<Rightarrow> MongoDBConnection | SQLITE \<Rightarrow> SQLiteConnection
                             | REDIS \<Rightarrow> RedisConnection | MYSQL \<Rightarrow> MySQLConnection),
               connection_string = cs, connection_timeout = timeout,
               database_type = t, transformer = t, connection = None\<rparr>)"
proof (cases "scheme_database_type (lower (urlparse_scheme L cs))")
  case None
  then show ?thesis by (simp add: create_connection_def)
next
  case (Some t)
  then show ?thesis
    by (cases t)
       (simp_all add: create_connection_def CONNECTION_CLASSES_def new_connection_def
          determine_database_type_def)
qed

lemma process_no_connection:
  assumes "create_connection L (arg_connection_string args) timeout = Inl (RaisedMcp e)"
  shows "process_jsonrpc_to_db L args timeout \<noteq> AwaitConnect c recs res"
  using assms
  by (simp add: process_jsonrpc_to_db_def Let_def split: sum.splits)

lemma example_scheme_oracle:
  "lower (urlparse_scheme example_lib ''Oracle://db:1521/x'') = ''oracle''"
  by code_simp

lemma example_scheme_rediss:
  "lower (urlparse_scheme example_lib ''rediss://cache:6380/0'') = ''rediss''"
  by code_simp

text \<open>
  Claim C8 says that every scheme other than the five names is refused. The factory tests
  how the scheme begins, not what it is: \<^verbatim>\<open>rediss\<close> is none of the names and selects the
  Redis connection.
\<close>

theorem rediss_scheme_counterexample:
  "lower (urlparse_scheme example_lib ''rediss://cache:6380/0'') = ''rediss'' \<and>
   ''rediss'' \<notin> set [''postgres'', ''postgresql'', ''mysql'', ''sqlite'', ''mongodb'', ''redis''] \<and>
   create_connection example_lib ''rediss://cache:6380/0'' 30 =
     Inr \<lparr>conn_class = RedisConnection, connection_string = ''rediss://cache:6380/0'',
          connection_timeout = 30, database_type = REDIS, transformer = REDIS,
          connection = None\<rparr>"
  by (simp add: example_scheme_rediss create_connection_by_type scheme_type_cases
      startswith_def)

text \<open>
  Claim C8, amended. Let the scheme be the lower-cased scheme of the connection string.
  If it begins with none of \<^verbatim>\<open>postgres\<close>, \<^verbatim>\<open>mysql\<close>, \<^verbatim>\<open>sqlite\<close>, \<^verbatim>\<open>mongodb\<close>, \<^verbatim>\<open>redis\<close>, the
  factory raises the error for an unsupported scheme; no connection object comes to be,
  and the pipeline never reaches the point where it awaits \<^verbatim>\<open>connect\<close>. If it begins with
  one of them, the factory returns a connection object of the class and database type
  that this prefix alone fixes, with no live handle yet.
\<close>

theorem backend_selected_by_scheme_prefix:
  assumes "scheme = lower (urlparse_scheme L cs)"
  shows "(\<not> startswith scheme ''postgres'' \<and> \<not> startswith scheme ''mysql'' \<and>
          \<not> startswith scheme ''sqlite'' \<and> \<not> startswith scheme ''mongodb'' \<and>
          \<not> startswith scheme ''redis'' \<longrightarrow>
            create_connection L cs timeout =
              Inl (RaisedMcp (McpError INTERNAL_ERROR
                (''Unsupported database scheme: '' @ scheme))) \<and>
            (arg_connection_string args = cs \<longrightarrow>
               (\<forall>c recs res. process_jsonrpc_to_db L args timeout \<noteq> AwaitConnect c recs res))) \<and>
         (startswith scheme ''postgres'' \<longrightarrow>
            create_connection L cs timeout =
              Inr \<lparr>conn_class = PostgreSQLConnection, connection_string = cs,
                   connection_timeout = timeout, database_type = POSTGRESQL,
                   transformer = POSTGRESQL, connection = None\<rparr>) \<and>
         (startswith scheme ''mysql'' \<longrightarrow>
            create_connection L cs timeout =
              Inr \<lparr>conn_class = MySQLConnection, connection_string = cs,
                   connection_timeout = timeout, database_type = MYSQL,
                   transformer = MYSQL, connection = None\<rparr>) \<and>
         (startswith scheme ''sqlite'' \<longrightarrow>
            create_connection L cs timeout =
              Inr \<lparr>conn_class = SQLiteConnection, connection_string = cs,
                   connection_timeout = timeout, database_type = SQLITE,
                   transformer = SQLITE, connection = None\<rparr>) \<and>
         (startswith scheme ''mongodb'' \<longrightarrow>
            create_connection L cs timeout =
              Inr \<lparr>conn_class = MongoDBConnection, connection_string = cs,
                   connection_timeout = timeout, database_type = MONGODB,
                   transformer = MONGODB, connection = None\<rparr>) \<and>
         (startswith scheme ''redis'' \<longrightarrow>
            create_connection L cs timeout =
              Inr \<lparr>conn_class = RedisConnection, connection_string = cs,
                   connection_timeout = timeout, database_type = REDIS,
                   transformer = REDIS, connection = None\<rparr>)"
proof (intro conjI impI allI)
  assume n: "\<not> startswith scheme ''postgres'' \<and> \<not> startswith scheme ''mysql'' \<and>
          \<not> startswith scheme ''sqlite'' \<and> \<not> startswith scheme ''mongodb'' \<and>
          \<not> startswith scheme ''redis''"
  then show f: "create_connection L cs timeout =
              Inl (RaisedMcp (McpError INTERNAL_ERROR
                (''Unsupported database scheme: '' @ scheme)))"
    using assms by (simp add: create_connection_by_type scheme_type_cases)
  fix c recs res
  assume "arg_connection_string args = cs"
  then show "process_jsonrpc_to_db L args timeout \<noteq> AwaitConnect c recs res"
    using f by (simp add: process_no_connection)
next
  assume "startswith scheme ''postgres''"
  then show "create_connection L cs timeout =
              Inr \<lparr>conn_class = PostgreSQLConnection, connection_string = cs,
                   connection_timeout = timeout, database_type = POSTGRESQL,
                   transformer = POSTGRESQL, connection = None\<rparr>"
    using assms by (simp add: create_connection_by_type scheme_type_cases)
next
  assume "startswith scheme ''mysql''"
  then show "create_connection L cs timeout =
              Inr \<lparr>conn_class = MySQLConnection, connection_string = cs,
                   connection_timeout = timeout, database_type = MYSQL,
                   transformer = MYSQL, connection = None\<rparr>"
    using assms prefixes_exclusive(1) [of scheme]
    by (simp add: create_connection_by_type scheme_type_cases)
next
  assume "startswith scheme ''sqlite''"
  then show "create_connection L cs timeout =
              Inr \<lparr>conn_class = SQLiteConnection, connection_string = cs,
                   connection_timeout = timeout, database_type = SQLITE,
                   transformer = SQLITE, connection = None\<rparr>"
    using assms prefixes_exclusive(2) [of scheme]
    by (simp add: create_connection_by_type scheme_type_cases)
next
  assume "startswith scheme ''mongodb''"
  then show "create_connection L cs timeout =
              Inr \<lparr>conn_class = MongoDBConnection, connection_string = cs,
                   connection_timeout = timeout, database_type = MONGODB,
                   transformer = MONGODB, connection = None\<rparr>"
    using assms prefixes_exclusive(3) [of scheme]
    by (simp add: create_connection_by_type scheme_type_cases)
next
  assume "startswith scheme ''redis''"
  then show "create_connection L cs timeout =
              Inr \<lparr>conn_class = RedisConnection, connection_string = cs,
                   connection_timeout = timeout, database_type = REDIS,
                   transformer = REDIS, connection = None\<rparr>"
    using assms prefixes_exclusive(4) [of scheme]
    by (simp add: create_connection_by_type scheme_type_cases)
qed


lemma strip_object_result_text: "strip object_result_text = object_result_text"
  by (simp add: strip_def is_space_def object_result_text_def dq_def)

lemma loads_object_result_text:
  "json_loads example_lib object_result_text =
     Inr (PDict [(''jsonrpc'', PStr ''2.0''), (''id'', PInt 1),
                 (''result'', PDict [(''name'', PStr ''Ann''), (''age'', PInt 30)])])"
  by (simp add: example_lib_def object_result_text_def empty_result_text_def dq_def)

lemma process_with_records:
  assumes "validate_jsonrpc_batch L (jsonrpc_response args) = Inr responses"
    and "extract_all responses = Inr all_records" and "all_records \<noteq> []"
  shows "process_jsonrpc_to_db L args timeout =
     (case create_connection L (arg_connection_string args) timeout of
        Inl (RaisedMcp e) \<Rightarrow> Raised e
      | Inl (RaisedPy x) \<Rightarrow> Raised (unexpected x)
      | Inr db_connection \<Rightarrow>
          AwaitConnect db_connection all_records
            \<lparr>processed_responses = length responses, inserted_records = 0,
             table_name = (case arg_table_name args of
                             None \<Rightarrow> ''jsonrpc_data''
                           | Some n \<Rightarrow> if n = [] then ''jsonrpc_data'' else n),
             result_database_type = arg_database_type args, errors = []\<rparr>)"
  using assms
  by (cases "create_connection L (arg_connection_string args) timeout")
     (simp_all add: process_jsonrpc_to_db_def Let_def split: raised.splits)

lemma validate_object_result:
  "validate_jsonrpc_batch example_lib object_result_text =
     Inr [\<lparr>jsonrpc = ''2.0'', rpc_id = PInt 1,
           result = PDict [(''name'', PStr ''Ann''), (''age'', PInt 30)], error = PNone,
           rpc_method = PNone, params = PNone\<rparr>]"
  by (simp add: validate_jsonrpc_batch_def parse_jsonrpc_response_def
      strip_object_result_text loads_object_result_text parse_jsonrpc_data_def dict_get_def
      dict_has_def)

lemma extract_object_result:
  "extract_all [\<lparr>jsonrpc = ''2.0'', rpc_id = PInt 1,
           result = PDict [(''name'', PStr ''Ann''), (''age'', PInt 30)], error = PNone,
           rpc_method = PNone, params = PNone\<rparr>] =
     Inr [[(''name'', PStr ''Ann''), (''age'', PInt 30), (''jsonrpc_id'', PInt 1),
            (''jsonrpc_version'', PStr ''2.0''), (''is_success'', PBool True)]]"
  by (simp add: extract_data_from_jsonrpc_def is_error_def is_notification_def)

theorem backend_selected_by_scheme_prefix_witness:
  "create_connection example_lib ''Oracle://db:1521/x'' 30 =
     Inl (RaisedMcp (McpError INTERNAL_ERROR ''Unsupported database scheme: oracle'')) \<and>
   process_jsonrpc_to_db example_lib
     \<lparr>jsonrpc_response = object_result_text, arg_database_type = ''postgresql'',
      arg_connection_string = ''Oracle://db:1521/x'', arg_table_name = None,
      uuid_fields = None, create_if_missing = True, batch_size = 100,
      flatten_nested = True, add_timestamps = True\<rparr> 30 =
     Raised (McpError INTERNAL_ERROR ''Unsupported database scheme: oracle'') \<and>
   create_connection example_lib ''rediss://cache:6380/0'' 30 =
     Inr \<lparr>conn_class = RedisConnection, connection_string = ''rediss://cache:6380/0'',
          connection_timeout = 30, database_type = REDIS, transformer = REDIS,
          connection = None\<rparr>"
proof -
  let ?args = "\<lparr>jsonrpc_response = object_result_text, arg_database_type = ''postgresql'',
      arg_connection_string = ''Oracle://db:1521/x'', arg_table_name = None,
      uuid_fields = None, create_if_missing = True, batch_size = 100,
      flatten_nested = True, add_timestamps = True\<rparr>"
  have a: "create_connection example_lib ''Oracle://db:1521/x'' 30 =
     Inl (RaisedMcp (McpError INTERNAL_ERROR ''Unsupported database scheme: oracle''))"
    using backend_selected_by_scheme_prefix [OF example_scheme_oracle [symmetric], of 30 ?args]
    by (simp add: startswith_def)
  have b: "create_connection example_lib ''rediss://cache:6380/0'' 30 =
     Inr \<lparr>conn_class = RedisConnection, connection_string = ''rediss://cache:6380/0'',
          connection_timeout = 30, database_type = REDIS, transformer = REDIS,
          connection = None\<rparr>"
    using backend_selected_by_scheme_prefix [OF example_scheme_rediss [symmetric], of 30 ?args]
    by (simp add: startswith_def)
  have "process_jsonrpc_to_db example_lib ?args 30 =
     Raised (McpError INTERNAL_ERROR ''Unsupported database scheme: oracle'')"
    by (subst process_with_records [OF _ extract_object_result])
       (simp_all add: validate_object_result a)
  then show ?thesis using a b by simp
qed

section \<open>Flattening\<close>

lemma set_dict_set: "set (dict_set d k v) \<subseteq> insert (k, v) (set d)"
  by (induction d) (auto split: if_splits)

lemma set_dict_update: "set (dict_update d items) \<subseteq> set d \<union> set items"
proof (induction items arbitrary: d)
  case Nil
  then show ?case by simp
next
  case (Cons x items)
  obtain k v where x: "x = (k, v)" by (cases x)
  show ?case using Cons.IH [of "dict_set d k v"] set_dict_set [of d k v] x by auto
qed

lemma set_dict_of_items: "set (dict_of_items items) \<subseteq> set items"
  using set_dict_update [of "[]" items] by (simp add: dict_of_items_def)

lemma keys_dict_set: "fst ` set (dict_set d k v) = insert k (fst ` set d)"
proof (induction d)
  case Nil
  then show ?case by simp
next
  case (Cons x d)
  obtain k' v' where x: "x = (k', v')" by (cases x)
  show ?case using Cons.IH x by (cases "k' = k") (simp_all add: insert_commute)
qed

lemma distinct_dict_set: "distinct (map fst d) \<Longrightarrow> distinct (map fst (dict_set d k v))"
  by (induction d) (auto simp: keys_dict_set)

lemma distinct_dict_update: "distinct (map fst d) \<Longrightarrow> distinct (map fst (dict_update d items))"
  by (induction d items rule: dict_update.induct) (auto simp: distinct_dict_set)

lemma distinct_dict_of_items: "distinct (map fst (dict_of_items items))"
  by (simp add: dict_of_items_def distinct_dict_update)

lemma dict_set_new: "k \<notin> fst ` set d \<Longrightarrow> dict_set d k v = d @ [(k, v)]"
  by (induction d) auto

lemma dict_update_distinct:
  "distinct (map fst (d @ items)) \<Longrightarrow> dict_update d items = d @ items"
proof (induction items arbitrary: d)
  case Nil
  then show ?case by simp
next
  case (Cons x items)
  obtain k v where x: "x = (k, v)" by (cases x)
  have new: "dict_set d k v = d @ [(k, v)]"
    using Cons.prems x by (intro dict_set_new) auto
  have "distinct (map fst ((d @ [(k, v)]) @ items))" using Cons.prems x by simp
  from Cons.IH [OF this] show ?case using new x by simp
qed

lemma dict_of_items_distinct: "distinct (map fst items) \<Longrightarrow> dict_of_items items = items"
  using dict_update_distinct [of "[]" items] by (simp add: dict_of_items_def)

lemma flatten_items_flat: "list_all flat_item (flatten_items L d parent_key sep)"
proof (induction L d parent_key sep rule: flatten_items.induct)
  case (1 L parent_key sep)
  then show ?case by simp
next
  case (2 L k v rest parent_key sep)
  define new_key where
    "new_key = sanitize_field_name (if parent_key \<noteq> [] then parent_key @ sep @ k else k)"
  have rest: "list_all flat_item (flatten_items L rest parent_key sep)"
    using 2 by simp
  have key: "sanitize_field_name new_key = new_key"
    by (simp add: new_key_def sanitize_sanitize)
  define H where
    "H = (case v of
            PDict d \<Rightarrow> dict_of_items (flatten_items L d new_key sep)
          | PList xs \<Rightarrow> [(new_key, PStr (json_dumps L v))]
          | _ \<Rightarrow> [(new_key, v)])"
  have eq: "flatten_items L ((k, v) # rest) parent_key sep =
              H @ flatten_items L rest parent_key sep"
    unfolding H_def new_key_def by (simp only: flatten_items.simps Let_def)
  have head: "list_all flat_item H"
  proof (cases v)
    case (PDict d)
    have "list_all flat_item (flatten_items L d new_key sep)"
      using "2.IH"(1) [OF refl refl PDict] by (simp add: new_key_def)
    then show ?thesis
      using set_dict_of_items [of "flatten_items L d new_key sep"] PDict
      by (auto simp: list_all_iff H_def)
  qed (simp_all add: flat_item_def key H_def)
  show ?case unfolding eq using head rest by simp
qed

lemma flatten_items_fixed:
  "list_all flat_item xs \<Longrightarrow> flatten_items L xs [] sep = xs"
proof (induction xs)
  case Nil
  then show ?case by simp
next
  case (Cons x xs)
  obtain k v where x: "x = (k, v)" by (cases x)
  have "sanitize_field_name k = k" "\<not> is_dict v" "\<not> is_list v"
    using Cons.prems x by (simp_all add: flat_item_def)
  then show ?case using Cons x by (cases v) simp_all
qed

text \<open>
  Claim C7. For every record, flattening the flattened record gives it back unchanged.
  In the flattened record every key is a sanitised name and no value is a mapping; nor is
  any a sequence, since a sequence has become its JSON text.
\<close>

theorem flatten_idempotent:
  "flatten L (flatten L r) = flatten L r \<and>
   list_all (\<lambda>(k, v). sanitize_field_name k = k \<and> \<not> is_dict v \<and> \<not> is_list v) (flatten L r)"
proof -
  have flat: "list_all flat_item (flatten L r)"
    using flatten_items_flat [of L r "[]" "''_''"]
          set_dict_of_items [of "flatten_items L r [] ''_''"]
    by (auto simp: flatten_def flatten_nested_dict_def list_all_iff)
  have dist: "distinct (map fst (flatten L r))"
    by (simp add: flatten_def flatten_nested_dict_def distinct_dict_of_items)
  have "flatten L (flatten L r) = dict_of_items (flatten L r)"
    using flatten_items_fixed [OF flat] by (simp add: flatten_def flatten_nested_dict_def)
  then have "flatten L (flatten L r) = flatten L r"
    using dict_of_items_distinct [OF dist] by simp
  moreover have "list_all (\<lambda>(k, v). sanitize_field_name k = k \<and> \<not> is_dict v \<and> \<not> is_list v)
     (flatten L r)"
    using flat by (auto simp: list_all_iff flat_item_def)
  ultimately show ?thesis by simp
qed

theorem flatten_idempotent_witness:
  "flatten example_lib
     [(''User'', PDict [(''Full Name'', PStr ''Ann''), (''tags'', PList [PInt 1]),
                       (''addr'', PDict [(''zip'', PInt 7)])]),
      (''user_tags'', PInt 3)] =
     [(''user_full_name'', PStr ''Ann''), (''user_tags'', PInt 3),
      (''user_addr_zip'', PInt 7)] \<and>
   flatten example_lib
     [(''user_full_name'', PStr ''Ann''), (''user_tags'', PInt 3),
      (''user_addr_zip'', PInt 7)] =
     [(''user_full_name'', PStr ''Ann''), (''user_tags'', PInt 3),
      (''user_addr_zip'', PInt 7)]"
proof -
  have e: "flatten example_lib
     [(''User'', PDict [(''Full Name'', PStr ''Ann''), (''tags'', PList [PInt 1]),
                       (''addr'', PDict [(''zip'', PInt 7)])]),
      (''user_tags'', PInt 3)] =
     [(''user_full_name'', PStr ''Ann''), (''user_tags'', PInt 3),
      (''user_addr_zip'', PInt 7)]"
    by code_simp
  show ?thesis
    using flatten_idempotent [of example_lib
     "[(''User'', PDict [(''Full Name'', PStr ''Ann''), (''tags'', PList [PInt 1]),
                       (''addr'', PDict [(''zip'', PInt 7)])]),
      (''user_tags'', PInt 3)]"]
    unfolding e by simp
qed

end
